theory Spec2Isabelle
  imports Main "HOL-Library.AList"
begin

section \<open>Python values shared by the modules\<close>

text \<open>
  The values decoded by \<^verbatim>\<open>json.loads\<close>. A Python \<^verbatim>\<open>dict\<close> is an association list
  with distinct keys, in insertion order; \<^verbatim>\<open>d.get(k)\<close> is \<open>map_of d k\<close>, with \<open>None\<close>
  for Python's \<^verbatim>\<open>None\<close>. Numbers are the integers (no claim reads a float).
\<close>

datatype json =
    JNull
  | JBool bool
  | JInt int
  | JStr string
  | JArr "json list"
  | JObj "(string \<times> json) list"

type_synonym message = "(string \<times> json) list"

text \<open>
  The messages of the exceptions and the printed lines are f-strings. A message is kept
  as the list of its pieces: a literal or interpolated string as \<open>S\<close>, an interpolated
  integer as \<open>I\<close>, an interpolated JSON value as \<open>V\<close>, the text that
  \<^verbatim>\<open>json.dumps\<close> gives for a value as \<open>D\<close>. The message
  \<^verbatim>\<open>f"Negative quantity for asset {unit}: {quantity}"\<close> is
  \<open>[S ''Negative quantity for asset '', S unit, S '': '', I quantity]\<close>.
\<close>

datatype part = S string | I int | V json | D json

type_synonym fstring = "part list"

section \<open>types/hydra\_status.py\<close>

datatype HydraStatus =
    IDLE | DISCONNECTED | CONNECTING | CONNECTED | INITIALIZING
  | OPEN | CLOSED | FANOUT_POSSIBLE | FINAL

text \<open>
  \<^verbatim>\<open>hydra_status(value)\<close>: the \<^verbatim>\<open>headStatus\<close> field is read first, then the
  \<^verbatim>\<open>match\<close> on the tag compares the tag with each literal by equality, in the
  order of the source, and the wildcard case returns \<^verbatim>\<open>None\<close>.
\<close>

definition hydra_status :: "message \<Rightarrow> HydraStatus option" where
  "hydra_status v =
     (if map_of v ''headStatus'' = Some (JStr ''Open'') then Some OPEN
      else let tag = map_of v ''tag'' in
        if tag = Some (JStr ''HeadIsInitializing'') then Some INITIALIZING
        else if tag = Some (JStr ''HeadIsOpen'') then Some OPEN
        else if tag = Some (JStr ''HeadIsClosed'') then Some CLOSED
        else if tag = Some (JStr ''ReadyToFanout'') then Some FANOUT_POSSIBLE
        else if tag = Some (JStr ''HeadIsFinalized'') then Some FINAL
        else None)"

section \<open>connections/hydra\_connection.py\<close>

text \<open>
  The transport is the \<^verbatim>\<open>WebSocketApp\<close> of the websocket-client library. The model
  keeps what the connection reads and writes of it: whether
  \<^verbatim>\<open>sock and sock.connected\<close> holds, the frames handed to \<^verbatim>\<open>send\<close> (oldest first),
  and the status codes handed to \<^verbatim>\<open>close\<close>.
\<close>

record WebSocketApp =
  sock_connected :: bool
  frames :: "json list"
  close_codes :: "int list"

text \<open>What \<^verbatim>\<open>self._event_emitter.emit\<close> was called with.\<close>

datatype event = OnMessage json | OnStatusChange HydraStatus

text \<open>
  The fields of \<^verbatim>\<open>HydraConnection\<close>. \<open>emitted\<close> is the sequence of the emitter's
  \<^verbatim>\<open>emit\<close> calls, oldest first, and \<open>threads_started\<close> counts the
  \<^verbatim>\<open>threading.Thread(...).start()\<close> calls.
\<close>

record HydraConnection =
  websocket :: "WebSocketApp option"
  status :: HydraStatus
  connected :: bool
  emitted :: "event list"
  threads_started :: nat

definition emit :: "event \<Rightarrow> HydraConnection \<Rightarrow> HydraConnection" where
  "emit e c = c\<lparr>emitted := emitted c @ [e]\<rparr>"

text \<open>
  \<^verbatim>\<open>process_status\<close>: every member of the enumeration is truthy, so \<^verbatim>\<open>if status:\<close>
  is the test that a status was extracted.
\<close>

definition process_status :: "message \<Rightarrow> HydraConnection \<Rightarrow> HydraConnection" where
  "process_status m c =
     (case hydra_status m of
        None \<Rightarrow> c
      | Some s \<Rightarrow> emit (OnStatusChange s) (c\<lparr>status := s\<rparr>))"

text \<open>
  \<^verbatim>\<open>connect\<close> has no test: each call builds a new \<^verbatim>\<open>WebSocketApp\<close> (whose socket is
  not open yet), stores it, sets the status and starts a thread.
\<close>

definition new_WebSocketApp :: WebSocketApp where
  "new_WebSocketApp = \<lparr>sock_connected = False, frames = [], close_codes = []\<rparr>"

definition connect :: "HydraConnection \<Rightarrow> HydraConnection" where
  "connect c =
     c\<lparr>websocket := Some new_WebSocketApp, status := CONNECTING,
       threads_started := Suc (threads_started c)\<rparr>"

text \<open>
  \<^verbatim>\<open>WebSocketApp.close(status=code)\<close> closes the socket with that code. What it does
  to the transport is all that is recorded here; the callback that the close sets off on
  the transport's thread is run by \<open>disconnect\<close> below.
\<close>

definition ws_close :: "int \<Rightarrow> WebSocketApp \<Rightarrow> WebSocketApp" where
  "ws_close code w = w\<lparr>sock_connected := False, close_codes := close_codes w @ [code]\<rparr>"

definition on_open :: "HydraConnection \<Rightarrow> HydraConnection" where
  "on_open c = c\<lparr>connected := True, status := CONNECTED\<rparr>"

definition on_error :: "HydraConnection \<Rightarrow> HydraConnection" where
  "on_error c = c\<lparr>connected := False\<rparr>"

text \<open>
  \<^verbatim>\<open>_on_close\<close>, the callback that \<^verbatim>\<open>connect\<close> registers as \<^verbatim>\<open>on_close\<close>, run on its
  own.
\<close>

definition on_close :: "HydraConnection \<Rightarrow> HydraConnection" where
  "on_close c =
     (let c1 = c\<lparr>status := DISCONNECTED, connected := False\<rparr>
      in emit (OnStatusChange (status c1)) c1)"

text \<open>
  \<^verbatim>\<open>disconnect\<close> runs on the caller's thread. When it closes an open transport, the
  transport's thread runs the registered callback \<^verbatim>\<open>_on_close\<close>, at any moment from the
  call of \<^verbatim>\<open>close\<close> on: before, between or after the statements that follow it in
  \<^verbatim>\<open>disconnect\<close>. Both write the same fields and publish on the same emitter, so the
  two are modelled as two lists of atomic statements, run in an interleaving. The
  argument of \<^verbatim>\<open>emit("onstatuschange", self._status)\<close> is read before the call: reading
  the status and calling \<^verbatim>\<open>emit\<close> are two statements, and each thread keeps the value
  it read until its call.
\<close>

datatype thread = Caller | Transport

datatype stmt = Set_status HydraStatus | Set_connected bool | Load_status | Call_emit

record threads =
  conn :: HydraConnection
  caller_arg :: "HydraStatus option"
  transport_arg :: "HydraStatus option"

fun step :: "thread \<times> stmt \<Rightarrow> threads \<Rightarrow> threads" where
  "step (t, Set_status s) x = x\<lparr>conn := (conn x)\<lparr>status := s\<rparr>\<rparr>"
| "step (t, Set_connected b) x = x\<lparr>conn := (conn x)\<lparr>connected := b\<rparr>\<rparr>"
| "step (Caller, Load_status) x = x\<lparr>caller_arg := Some (status (conn x))\<rparr>"
| "step (Transport, Load_status) x = x\<lparr>transport_arg := Some (status (conn x))\<rparr>"
| "step (Caller, Call_emit) x =
     (case caller_arg x of
        None \<Rightarrow> x
      | Some s \<Rightarrow> x\<lparr>conn := emit (OnStatusChange s) (conn x), caller_arg := None\<rparr>)"
| "step (Transport, Call_emit) x =
     (case transport_arg x of
        None \<Rightarrow> x
      | Some s \<Rightarrow> x\<lparr>conn := emit (OnStatusChange s) (conn x), transport_arg := None\<rparr>)"

text \<open>
  The scheduler's choices: at each point where both threads have a statement left,
  \<open>True\<close> lets the first thread go and \<open>False\<close> the second; when the choices run out,
  the first thread finishes and then the second. Every interleaving of the two lists is
  the result of some list of choices.
\<close>

fun interleave :: "bool list \<Rightarrow> 'a list \<Rightarrow> 'a list \<Rightarrow> 'a list" where
  "interleave bs [] ys = ys"
| "interleave bs (x # xs) [] = x # xs"
| "interleave [] (x # xs) (y # ys) = (x # xs) @ (y # ys)"
| "interleave (b # bs) (x # xs) (y # ys) =
     (if b then x # interleave bs xs (y # ys) else y # interleave bs (x # xs) ys)"

definition run_threads ::
  "bool list \<Rightarrow> stmt list \<Rightarrow> stmt list \<Rightarrow> HydraConnection \<Rightarrow> HydraConnection" where
  "run_threads schedule caller transport c =
     conn (fold step
             (interleave schedule (map (Pair Caller) caller) (map (Pair Transport) transport))
             \<lparr>conn = c, caller_arg = None, transport_arg = None\<rparr>)"

text \<open>
  The statements of \<^verbatim>\<open>disconnect\<close> after the call of \<^verbatim>\<open>close\<close>, and the statements of
  \<^verbatim>\<open>_on_close\<close>.
\<close>

definition disconnect_statements :: "stmt list" where
  "disconnect_statements = [Set_status IDLE, Set_connected False, Load_status, Call_emit]"

definition on_close_statements :: "stmt list" where
  "on_close_statements = [Set_status DISCONNECTED, Set_connected False, Load_status, Call_emit]"

text \<open>
  \<^verbatim>\<open>disconnect\<close>, under the schedule of the two threads; the result is the connection
  once the call has returned and the callback, if one was due, has run. No callback is
  due when no open transport was closed.
\<close>

definition disconnect :: "bool list \<Rightarrow> HydraConnection \<Rightarrow> HydraConnection" where
  "disconnect schedule c =
     (if status c = IDLE then c
      else
        (case websocket c of
           None \<Rightarrow> run_threads schedule disconnect_statements [] c
         | Some w \<Rightarrow>
             if sock_connected w
             then run_threads schedule disconnect_statements on_close_statements
                    (c\<lparr>websocket := Some (ws_close 1007 w)\<rparr>)
             else run_threads schedule disconnect_statements [] c))"


section \<open>providers/hydra\_provider.py: connecting\<close>

text \<open>
  The provider keeps a status field of its own, \<open>DISCONNECTED\<close> after
  \<^verbatim>\<open>__init__\<close>, beside the connection it owns. Its \<^verbatim>\<open>connect\<close> reads that field.
\<close>

record HydraProvider =
  provider_status :: HydraStatus
  provider_connection :: HydraConnection

definition provider_connect :: "HydraProvider \<Rightarrow> HydraProvider" where
  "provider_connect p =
     (if provider_status p \<noteq> DISCONNECTED then p
      else p\<lparr>provider_connection := connect (provider_connection p),
             provider_status := CONNECTED\<rparr>)"

section \<open>connections/hydra\_connection.py: sending\<close>

text \<open>
  \<^verbatim>\<open>send\<close> reads the clock and the transport, which the transport's thread changes
  behind the caller. The run of a call is kept in a record: \<open>clock\<close> is the value of
  \<^verbatim>\<open>time.time()\<close> in seconds, which only \<^verbatim>\<open>time.sleep\<close> advances (the other
  statements take no time); \<open>wire\<close> holds the frames handed to \<^verbatim>\<open>WebSocketApp.send\<close>,
  each with the clock at that moment; \<open>polls\<close> records the clock at each call of the
  inner \<^verbatim>\<open>send_data\<close>; \<open>stdout\<close> holds the printed lines. The argument
  \<open>transport\<close> gives \<^verbatim>\<open>self._websocket\<close> as it is at each clock value.
  \<^verbatim>\<open>send\<close> has no \<^verbatim>\<open>raise\<close> and returns \<^verbatim>\<open>None\<close> on every path, so its result is
  the run alone.
\<close>

record run =
  clock :: int
  wire :: "(int \<times> json) list"
  polls :: "int list"
  stdout :: "fstring list"

definition ready :: "(int \<Rightarrow> WebSocketApp option) \<Rightarrow> int \<Rightarrow> bool" where
  "ready transport t =
     (case transport t of None \<Rightarrow> False | Some w \<Rightarrow> sock_connected w)"

definition poll :: "run \<Rightarrow> run" where
  "poll r = r\<lparr>polls := polls r @ [clock r]\<rparr>"

definition deliver :: "json \<Rightarrow> run \<Rightarrow> run" where
  "deliver data r = r\<lparr>wire := wire r @ [(clock r, data)]\<rparr>"

definition sleep :: "int \<Rightarrow> run \<Rightarrow> run" where
  "sleep d r = r\<lparr>clock := clock r + d\<rparr>"

definition print_failed :: "json \<Rightarrow> run \<Rightarrow> run" where
  "print_failed data r = r\<lparr>stdout := stdout r @ [[S ''Websocket failed to send '', V data]]\<rparr>"

function send_loop :: "(int \<Rightarrow> WebSocketApp option) \<Rightarrow> json \<Rightarrow> int \<Rightarrow> run \<Rightarrow> run" where
  "send_loop transport data start_time r =
     (if clock r - start_time < 5 then
        (if ready transport (clock r) then deliver data (poll r)
         else send_loop transport data start_time (sleep 1 (poll r)))
      else print_failed data r)"
  by pat_completeness auto
termination
  by (relation "measure (\<lambda>(transport, data, start_time, r). nat (start_time + 5 - clock r))")
     (auto simp: sleep_def poll_def)

declare send_loop.simps [simp del]

definition send :: "(int \<Rightarrow> WebSocketApp option) \<Rightarrow> json \<Rightarrow> run \<Rightarrow> run" where
  "send transport data r =
     (if ready transport (clock r) then deliver data (poll r)
      else send_loop transport data (clock (poll r)) (poll r))"

section \<open>Exceptions\<close>

text \<open>
  What the code reads of a \<^verbatim>\<open>requests\<close> request and response. The field
  \<open>response_text\<close> is \<^verbatim>\<open>response.text\<close>.
\<close>

record Request =
  request_method :: string
  url :: string
  request_headers :: "(string \<times> string) list"

record Response =
  status_code :: int
  response_text :: string
  headers :: "(string \<times> string) list"

text \<open>
  The exceptions the modules raise or meet, each with its message. Every one of them is
  an instance of \<^verbatim>\<open>Exception\<close>. \<open>RequestException\<close> carries the attributes
  \<^verbatim>\<open>response\<close>, \<^verbatim>\<open>request\<close> and \<^verbatim>\<open>errno\<close> that \<^verbatim>\<open>parse_error\<close> reads;
  \<open>CBORError\<close> stands for \<^verbatim>\<open>cbor2.CBORError\<close> and its subclasses,
  \<open>DeserializeException\<close> for the exception of that name in pycardano.
\<close>

datatype py_error =
    TypeError fstring
  | ValueError fstring
  | AssertionError fstring
  | KeyError fstring
  | AttributeError fstring
  | InvalidStateError fstring
  | CBORError fstring
  | DeserializeException fstring
  | RequestException fstring "Response option" "Request option" "int option"
  | Exception fstring

fun err_str :: "py_error \<Rightarrow> fstring" where
  "err_str (TypeError m) = m"
| "err_str (ValueError m) = m"
| "err_str (AssertionError m) = m"
| "err_str (KeyError m) = m"
| "err_str (AttributeError m) = m"
| "err_str (InvalidStateError m) = m"
| "err_str (CBORError m) = m"
| "err_str (DeserializeException m) = m"
| "err_str (RequestException m _ _ _) = m"
| "err_str (Exception m) = m"

section \<open>utils/parse\_error.py\<close>

text \<open>
  \<^verbatim>\<open>parse_error\<close> returns a \<^verbatim>\<open>str\<close>: the text \<^verbatim>\<open>json.dumps\<close> gives for one of four
  documents. The model keeps the document: the message alone, or the response's
  \<^verbatim>\<open>data\<close>, \<^verbatim>\<open>headers\<close> and \<^verbatim>\<open>status\<close>, or the request's \<^verbatim>\<open>method\<close>, \<^verbatim>\<open>url\<close>
  and \<^verbatim>\<open>headers\<close>, or \<^verbatim>\<open>code\<close> and \<^verbatim>\<open>message\<close>.
\<close>

datatype dumped =
    Dumps_str fstring
  | Dumps_response string "(string \<times> string) list" int
  | Dumps_request string string "(string \<times> string) list"
  | Dumps_code "int option" fstring

text \<open>
  The callers hand \<^verbatim>\<open>parse_error\<close> an exception, or (in \<^verbatim>\<open>get\<close> and \<^verbatim>\<open>post\<close>) the
  decoded body of a response, which is no \<^verbatim>\<open>RequestException\<close>.
\<close>

datatype py_arg = Err py_error | Val json

fun parse_error :: "py_arg \<Rightarrow> dumped" where
  "parse_error (Err (RequestException m (Some resp) req errno)) =
     Dumps_response (response_text resp) (headers resp) (status_code resp)"
| "parse_error (Err (RequestException m None (Some req) errno)) =
     Dumps_request (request_method req) (url req) (request_headers req)"
| "parse_error (Err (RequestException m None None errno)) = Dumps_code errno m"
| "parse_error (Err e) = Dumps_str (err_str e)"
| "parse_error (Val v) = Dumps_str [V v]"

text \<open>
  \<^verbatim>\<open>raise s\<close> for a \<^verbatim>\<open>str\<close> \<open>s\<close>: Python raises a \<^verbatim>\<open>TypeError\<close> instead, since a
  \<^verbatim>\<open>str\<close> is no exception; the text \<open>s\<close> is lost.
\<close>

definition raise_str :: "dumped \<Rightarrow> py_error" where
  "raise_str s = TypeError [S ''exceptions must derive from BaseException'']"

text \<open>
  \<^verbatim>\<open>await x\<close> for \<open>x\<close> the value \<^verbatim>\<open>None\<close>, which is what the plain function
  \<^verbatim>\<open>HydraConnection.send\<close> returns: Python raises a \<^verbatim>\<open>TypeError\<close>.
\<close>

definition await_None :: py_error where
  "await_None = TypeError [S ''object NoneType can't be used in 'await' expression'']"

section \<open>providers/hydra\_provider.py: request and response\<close>

text \<open>
  The outcome of \<^verbatim>\<open>self._session.get\<close> or \<^verbatim>\<open>self._session.post\<close>: an exception, or
  a response together with what \<^verbatim>\<open>response.json()\<close> gives for it (the decoded body, or
  an exception when the body is no JSON).
\<close>

type_synonym http_outcome = "py_error + Response \<times> (py_error + json)"

text \<open>The body of the \<^verbatim>\<open>try\<close> block of \<^verbatim>\<open>get\<close>, then \<^verbatim>\<open>get\<close> with its handler.\<close>

definition get_try :: "http_outcome \<Rightarrow> py_error + json" where
  "get_try outcome =
     (case outcome of
        Inl e \<Rightarrow> Inl e
      | Inr (response, response_json) \<Rightarrow>
          if status_code response = 200 \<or> status_code response = 202 then response_json
          else (case response_json of
                  Inl e \<Rightarrow> Inl e
                | Inr body \<Rightarrow> Inl (raise_str (parse_error (Val body)))))"

definition get :: "http_outcome \<Rightarrow> py_error + json" where
  "get outcome =
     (case get_try outcome of
        Inr body \<Rightarrow> Inr body
      | Inl error \<Rightarrow> Inl (raise_str (parse_error (Err error))))"

definition post_try :: "http_outcome \<Rightarrow> py_error + json" where
  "post_try outcome =
     (case outcome of
        Inl e \<Rightarrow> Inl e
      | Inr (response, response_json) \<Rightarrow>
          if status_code response = 200 \<or> status_code response = 202 then response_json
          else (case response_json of
                  Inl e \<Rightarrow> Inl e
                | Inr body \<Rightarrow> Inl (raise_str (parse_error (Val body)))))"

definition post :: "http_outcome \<Rightarrow> py_error + json" where
  "post outcome =
     (case post_try outcome of
        Inr body \<Rightarrow> Inr body
      | Inl error \<Rightarrow> Inl (raise_str (parse_error (Err error))))"

section \<open>providers/hydra\_provider.py: submitting a transaction\<close>

text \<open>
  The \<^verbatim>\<open>asyncio\<close> future of \<^verbatim>\<open>wait_for_tx_response\<close>: pending, or done with a result,
  or done with an exception. Setting a future that is done raises
  \<^verbatim>\<open>InvalidStateError\<close>.
\<close>

datatype future = Pending | Result json | Failed py_error

definition set_result :: "json \<Rightarrow> future \<Rightarrow> py_error + future" where
  "set_result v f =
     (case f of Pending \<Rightarrow> Inr (Result v) | _ \<Rightarrow> Inl (InvalidStateError [S ''invalid state'']))"

definition set_exception :: "py_error \<Rightarrow> future \<Rightarrow> py_error + future" where
  "set_exception e f =
     (case f of Pending \<Rightarrow> Inr (Failed e) | _ \<Rightarrow> Inl (InvalidStateError [S ''invalid state'']))"

text \<open>
  \<^verbatim>\<open>message.get("transaction", {}).get("cborHex")\<close>: the default is used only when the
  key is absent, and a value that is no \<^verbatim>\<open>dict\<close> has no \<^verbatim>\<open>get\<close>.
\<close>

definition transaction_cborHex :: "message \<Rightarrow> py_error + json option" where
  "transaction_cborHex m =
     (case map_of m ''transaction'' of
        None \<Rightarrow> Inr None
      | Some (JObj t) \<Rightarrow> Inr (map_of t ''cborHex'')
      | Some _ \<Rightarrow> Inl (AttributeError [S ''object has no attribute get'']))"

text \<open>\<^verbatim>\<open>d[k]\<close> on a \<^verbatim>\<open>dict\<close>.\<close>

definition subscript :: "message \<Rightarrow> string \<Rightarrow> py_error + json" where
  "subscript m k = (case map_of m k of None \<Rightarrow> Inl (KeyError [S k]) | Some v \<Rightarrow> Inr v)"

text \<open>
  The inner \<^verbatim>\<open>callback\<close> of \<^verbatim>\<open>wait_for_tx_response\<close>, for the transaction \<open>tx\<close> it
  closes over, run on one message against the future.
\<close>

definition callback :: "string \<Rightarrow> message \<Rightarrow> future \<Rightarrow> py_error + future" where
  "callback tx m f =
     (if map_of m ''tag'' = Some (JStr ''TxValid'') then
        (case transaction_cborHex m of
           Inl e \<Rightarrow> Inl e
         | Inr h \<Rightarrow>
             if h = Some (JStr tx) then
               (case subscript m ''transaction'' of
                  Inl e \<Rightarrow> Inl e
                | Inr (JObj t) \<Rightarrow>
                    (case subscript t ''txId'' of
                       Inl e \<Rightarrow> Inl e
                     | Inr tx_id \<Rightarrow> set_result tx_id f)
                | Inr _ \<Rightarrow> Inl (TypeError [S ''indices must be integers'']))
             else Inr f)
      else if map_of m ''tag'' = Some (JStr ''TxInvalid'') then
        (case transaction_cborHex m of
           Inl e \<Rightarrow> Inl e
         | Inr h \<Rightarrow>
             if h = Some (JStr tx) then
               (case subscript m ''validationError'' of
                  Inl e \<Rightarrow> Inl e
                | Inr v \<Rightarrow> set_exception (Exception [D v]) f)
             else Inr f)
      else Inr f)"

text \<open>
  The messages published while the coroutine waits, in order: each runs the callback
  while the future is pending (a callback that raises leaves the future as it was); once
  the future is done the coroutine resumes and the later messages are not its concern.
\<close>

fun deliver_all :: "string \<Rightarrow> message list \<Rightarrow> future \<Rightarrow> future" where
  "deliver_all tx [] f = f"
| "deliver_all tx (m # ms) f =
     (case f of
        Pending \<Rightarrow>
          (case callback tx m f of
             Inl e \<Rightarrow> deliver_all tx ms f
           | Inr f' \<Rightarrow> deliver_all tx ms f')
      | _ \<Rightarrow> f)"

text \<open>
  The result of a coroutine on a finite sequence of published messages: still suspended
  at its \<^verbatim>\<open>await\<close>, or returned, or raised.
\<close>

datatype 'a outcome = Suspended | Returned 'a | Raised py_error

text \<open>
  \<^verbatim>\<open>wait_for_tx_response\<close>. The listeners of the \<^verbatim>\<open>onmessage\<close> event are kept as the
  list of the transactions their callbacks close over; the \<^verbatim>\<open>finally\<close> clause removes
  the callback when the \<^verbatim>\<open>await\<close> ends, on either path.
\<close>

definition wait_for_tx_response ::
  "string \<Rightarrow> message list \<Rightarrow> string list \<Rightarrow> json outcome \<times> string list" where
  "wait_for_tx_response tx ms listeners =
     (let registered = listeners @ [tx] in
      case deliver_all tx ms Pending of
        Pending \<Rightarrow> (Suspended, registered)
      | Result v \<Rightarrow> (Returned v, remove1 tx registered)
      | Failed e \<Rightarrow> (Raised e, remove1 tx registered))"

text \<open>
  \<^verbatim>\<open>new_tx\<close> builds the command, calls \<^verbatim>\<open>self._connection.send(payload)\<close>, which runs
  to its end and returns \<^verbatim>\<open>None\<close>, and then awaits that value.
\<close>

definition new_tx ::
  "(int \<Rightarrow> WebSocketApp option) \<Rightarrow> string \<Rightarrow> string \<Rightarrow> string \<Rightarrow> string option \<Rightarrow> run
     \<Rightarrow> (py_error + unit) \<times> run" where
  "new_tx transport cbor_hex type description tx_id r =
     (let hydra_transaction =
            JObj [(''type'', JStr type), (''description'', JStr description),
                  (''cborHex'', JStr cbor_hex),
                  (''txId'', case tx_id of None \<Rightarrow> JNull | Some i \<Rightarrow> JStr i)];
          payload = JObj [(''tag'', JStr ''NewTx''), (''transaction'', hydra_transaction)];
          r1 = send transport payload r
      in (Inl await_None, r1))"

text \<open>
  \<^verbatim>\<open>submit_tx\<close>, on the messages published after the call, from a state made of the
  run of the sends and the listeners of \<^verbatim>\<open>onmessage\<close>. The handler
  \<^verbatim>\<open>except Exception as error: raise parse_error(error)\<close> covers both awaits.
\<close>

definition submit_tx ::
  "(int \<Rightarrow> WebSocketApp option) \<Rightarrow> string \<Rightarrow> message list \<Rightarrow> run \<times> string list
     \<Rightarrow> json outcome \<times> run \<times> string list" where
  "submit_tx transport tx ms st =
     (case new_tx transport tx ''Witnessed Tx ConwayEra'' [] None (fst st) of
        (Inl error, r1) \<Rightarrow> (Raised (raise_str (parse_error (Err error))), r1, snd st)
      | (Inr _, r1) \<Rightarrow>
          (case wait_for_tx_response tx ms (snd st) of
             (Raised error, ls) \<Rightarrow> (Raised (raise_str (parse_error (Err error))), r1, ls)
           | (res, ls) \<Rightarrow> (res, r1, ls)))"

section \<open>Strings and bytes\<close>

text \<open>
  A Python \<^verbatim>\<open>str\<close> is a \<open>string\<close>, one \<open>char\<close> for each code point (the code points
  below 256; the units and hex strings of the claims are ASCII), so that \<open>length\<close> is
  \<^verbatim>\<open>len\<close> and \<open>take\<close>, \<open>drop\<close> are the slices \<^verbatim>\<open>s[:n]\<close>, \<^verbatim>\<open>s[n:]\<close>. A
  \<^verbatim>\<open>bytes\<close> object is the list of its bytes, each a number below 256.
\<close>

type_synonym bytes = "nat list"

definition hex_digit :: "char \<Rightarrow> nat option" where
  "hex_digit c =
     (let n = (of_char c :: nat) in
      if 48 \<le> n \<and> n \<le> 57 then Some (n - 48)
      else if 97 \<le> n \<and> n \<le> 102 then Some (n - 87)
      else if 65 \<le> n \<and> n \<le> 70 then Some (n - 55)
      else None)"

definition is_space :: "char \<Rightarrow> bool" where
  "is_space c = ((of_char c :: nat) \<in> {32, 9, 10, 11, 12, 13})"

text \<open>
  \<^verbatim>\<open>bytes.fromhex\<close>: ASCII whitespace before a pair of digits is skipped; anything else
  that is not two hexadecimal digits is a \<^verbatim>\<open>ValueError\<close>.
\<close>

fun fromhex :: "string \<Rightarrow> py_error + bytes" where
  "fromhex [] = Inr []"
| "fromhex (c # cs) =
     (if is_space c then fromhex cs
      else
        (case hex_digit c of
           None \<Rightarrow> Inl (ValueError [S ''non-hexadecimal number found in fromhex() arg''])
         | Some hi \<Rightarrow>
             (case cs of
                [] \<Rightarrow> Inl (ValueError [S ''non-hexadecimal number found in fromhex() arg''])
              | d # ds \<Rightarrow>
                  (case hex_digit d of
                     None \<Rightarrow>
                       Inl (ValueError [S ''non-hexadecimal number found in fromhex() arg''])
                   | Some lo \<Rightarrow>
                       (case fromhex ds of
                          Inl e \<Rightarrow> Inl e
                        | Inr bs \<Rightarrow> Inr ((16 * hi + lo) # bs))))))"

text \<open>\<^verbatim>\<open>bytes.hex()\<close>.\<close>

definition hex :: "bytes \<Rightarrow> string" where
  "hex bs = concat (map (\<lambda>b. [''0123456789abcdef'' ! (b div 16), ''0123456789abcdef'' ! (b mod 16)]) bs)"

text \<open>\<^verbatim>\<open>str.encode("utf-8")\<close>, for code points below 256.\<close>

definition encode_utf8 :: "string \<Rightarrow> bytes" where
  "encode_utf8 s =
     concat (map (\<lambda>c. let n = (of_char c :: nat) in
                        if n < 128 then [n] else [192 + n div 64, 128 + n mod 64]) s)"

section \<open>The ledger library\<close>

text \<open>
  The ledger types come from the pycardano library, which is not part of the
  repository. \<open>ScriptHash\<close> and \<open>AssetName\<close> wrap a payload of bytes; a \<open>Value\<close> has a
  coin and a multi-asset dictionary from script hash to a dictionary from asset name to
  quantity. What the library's constructors accept, and what \<^verbatim>\<open>str\<close> gives for a script
  hash, is a parameter of the conversions.
\<close>

datatype script_hash = ScriptHash bytes

datatype asset_name = AssetName bytes

type_synonym Asset = "(asset_name \<times> int) list"

type_synonym MultiAsset = "(script_hash \<times> Asset) list"

record Value =
  coin :: int
  multi_asset :: MultiAsset

record pycardano =
  ScriptHash_init :: "bytes \<Rightarrow> py_error + script_hash"
  AssetName_init :: "bytes \<Rightarrow> py_error + asset_name"
  ScriptHash_str :: "script_hash \<Rightarrow> string"

text \<open>
  The library as released: the constructor of a constrained byte string asserts the size
  of its payload (exactly 28 bytes for a script hash, at most 32 for an asset name), and
  \<^verbatim>\<open>str\<close> of a script hash is the payload in hexadecimal.
\<close>

definition pycardano_lib :: pycardano where
  "pycardano_lib =
     \<lparr>ScriptHash_init = (\<lambda>bs. if length bs = 28 then Inr (ScriptHash bs)
                               else Inl (AssertionError [S ''Invalid byte size: '', I (int (length bs))])),
      AssetName_init = (\<lambda>bs. if length bs \<le> 32 then Inr (AssetName bs)
                              else Inl (AssertionError [S ''Invalid byte size: '', I (int (length bs))])),
      ScriptHash_str = (\<lambda>h. case h of ScriptHash bs \<Rightarrow> hex bs)\<rparr>"

section \<open>models/assets.py\<close>

type_synonym HydraAssets = "(string \<times> int) list"

text \<open>
  The elements of the list handed to \<^verbatim>\<open>hydra_assets\<close>: the loop header
  \<^verbatim>\<open>for unit, quantity in assets\<close> unpacks each element into two names, which succeeds
  on a pair and raises \<^verbatim>\<open>ValueError\<close> on the triple of the annotation
  \<^verbatim>\<open>List[Tuple[str, AssetName, int]]\<close>.
\<close>

datatype entry = Entry2 string int | Entry3 string asset_name int

fun hydra_assets_loop :: "entry list \<Rightarrow> HydraAssets \<Rightarrow> py_error + HydraAssets" where
  "hydra_assets_loop [] result = Inr result"
| "hydra_assets_loop (Entry3 p n q # assets) result =
     Inl (ValueError [S ''too many values to unpack (expected 2)''])"
| "hydra_assets_loop (Entry2 unit quantity # assets) result =
     (if quantity < 0
      then Inl (ValueError [S ''Negative quantity for asset '', S unit, S '': '', I quantity])
      else
        let unit' = (if unit = [] then ''lovelace'' else unit)
        in hydra_assets_loop assets
             (AList.update unit'
                ((case map_of result unit' of None \<Rightarrow> 0 | Some v \<Rightarrow> v) + quantity) result))"

definition hydra_assets :: "entry list \<Rightarrow> py_error + HydraAssets" where
  "hydra_assets assets =
     (case hydra_assets_loop assets [(''lovelace'', 0)] of
        Inl e \<Rightarrow> Inl e
      | Inr result \<Rightarrow> Inr (filter (\<lambda>(key, value). value \<noteq> 0) result))"

text \<open>
  \<^verbatim>\<open>try: ... except ValueError: raise ValueError(msg)\<close>: a \<^verbatim>\<open>ValueError\<close> of the block
  is replaced, any other exception passes.
\<close>

definition except_ValueError :: "fstring \<Rightarrow> py_error + 'a \<Rightarrow> py_error + 'a" where
  "except_ValueError msg r =
     (case r of Inl (ValueError m) \<Rightarrow> Inl (ValueError msg) | _ \<Rightarrow> r)"

text \<open>
  \<^verbatim>\<open>d[policy_hash][asset_name] = quantity\<close>, after an empty inner dictionary was stored
  for a policy hash that was not a key yet.
\<close>

definition set_quantity :: "script_hash \<Rightarrow> asset_name \<Rightarrow> int \<Rightarrow> MultiAsset \<Rightarrow> MultiAsset" where
  "set_quantity policy_hash name quantity ma =
     AList.update policy_hash
       (AList.update name quantity (case map_of ma policy_hash of None \<Rightarrow> [] | Some a \<Rightarrow> a)) ma"

text \<open>The dictionary \<^verbatim>\<open>{"coin": ..., "multi_asset": ...}\<close> that \<^verbatim>\<open>to_assets\<close> builds.\<close>

record assets_dict =
  dict_coin :: int
  dict_multi_asset :: MultiAsset

fun to_assets_loop :: "pycardano \<Rightarrow> HydraAssets \<Rightarrow> assets_dict \<Rightarrow> py_error + assets_dict" where
  "to_assets_loop lib [] result = Inr result"
| "to_assets_loop lib ((unit, quantity) # items) result =
     (if quantity = 0 then to_assets_loop lib items result
      else if quantity < 0
      then Inl (ValueError [S ''Negative quantity for unit '', S unit, S '': '', I quantity])
      else if unit = ''lovelace'' then to_assets_loop lib items (result\<lparr>dict_coin := quantity\<rparr>)
      else if length unit < 56 then Inl (ValueError [S ''Invalid unit length: '', S unit])
      else
        let policy_id = take 56 unit; asset_name = drop 56 unit in
        (case except_ValueError [S ''Invalid policy_id in unit: '', S unit]
                (case fromhex policy_id of
                   Inl e \<Rightarrow> Inl e
                 | Inr payload \<Rightarrow>
                     (case ScriptHash_init lib payload of
                        Inl e \<Rightarrow> Inl e
                      | Inr policy_hash \<Rightarrow>
                          (case AssetName_init lib
                                  (if asset_name \<noteq> [] then encode_utf8 asset_name else []) of
                             Inl e \<Rightarrow> Inl e
                           | Inr asset_name_obj \<Rightarrow>
                               Inr (result\<lparr>dict_multi_asset :=
                                      set_quantity policy_hash asset_name_obj quantity
                                        (dict_multi_asset result)\<rparr>)))) of
           Inl e \<Rightarrow> Inl e
         | Inr result' \<Rightarrow> to_assets_loop lib items result'))"

definition to_assets :: "pycardano \<Rightarrow> HydraAssets \<Rightarrow> py_error + assets_dict" where
  "to_assets lib hydra_assets' =
     to_assets_loop lib hydra_assets' \<lparr>dict_coin = 0, dict_multi_asset = []\<rparr>"

text \<open>
  \<^verbatim>\<open>hydra_assets_to_value\<close>: the loop carries \<^verbatim>\<open>lovelace\<close> and \<^verbatim>\<open>multi_asset\<close>. It has
  no test of the unit's length: a unit shorter than 56 characters gives the empty policy
  id, and the constructor of the script hash is called on the empty bytes.
\<close>

fun hydra_assets_to_value_loop ::
  "pycardano \<Rightarrow> HydraAssets \<Rightarrow> int \<times> MultiAsset \<Rightarrow> py_error + int \<times> MultiAsset" where
  "hydra_assets_to_value_loop lib [] st = Inr st"
| "hydra_assets_to_value_loop lib ((unit, quantity) # items) (lovelace, ma) =
     (if unit = ''lovelace'' then hydra_assets_to_value_loop lib items (quantity, ma)
      else
        let policy_id = (if length unit \<ge> 56 then take 56 unit else []);
            asset_name = (if length unit > 56 then drop 56 unit else [])
        in
        (case except_ValueError [S ''Invalid policy_id in unit: '', S unit]
                (case (if policy_id \<noteq> []
                       then (case fromhex policy_id of
                               Inl e \<Rightarrow> Inl e
                             | Inr payload \<Rightarrow> ScriptHash_init lib payload)
                       else ScriptHash_init lib []) of
                   Inl e \<Rightarrow> Inl e
                 | Inr policy_hash \<Rightarrow>
                     (case AssetName_init lib
                             (if asset_name \<noteq> [] then encode_utf8 asset_name else []) of
                        Inl e \<Rightarrow> Inl e
                      | Inr name \<Rightarrow> Inr (set_quantity policy_hash name quantity ma))) of
           Inl e \<Rightarrow> Inl e
         | Inr ma' \<Rightarrow> hydra_assets_to_value_loop lib items (lovelace, ma')))"

definition hydra_assets_to_value :: "pycardano \<Rightarrow> HydraAssets \<Rightarrow> py_error + Value" where
  "hydra_assets_to_value lib hydra_assets' =
     (case hydra_assets_to_value_loop lib hydra_assets' (0, []) of
        Inl e \<Rightarrow> Inl e
      | Inr (lovelace, ma) \<Rightarrow> Inr \<lparr>coin = lovelace, multi_asset = ma\<rparr>)"

text \<open>
  \<^verbatim>\<open>hydra_assets_from_value\<close> appends one triple for the coin, when it is positive, and
  one for every quantity of the multi-asset dictionary, and hands the list to
  \<^verbatim>\<open>hydra_assets\<close>.
\<close>

definition value_entries :: "pycardano \<Rightarrow> asset_name \<Rightarrow> Value \<Rightarrow> entry list" where
  "value_entries lib empty_name v =
     (if coin v > 0 then [Entry3 [] empty_name (coin v)] else []) @
     concat (map (\<lambda>(policy_id, asset).
                    map (\<lambda>(name, quantity). Entry3 (ScriptHash_str lib policy_id) name quantity)
                      asset)
               (multi_asset v))"

definition hydra_assets_from_value :: "pycardano \<Rightarrow> Value \<Rightarrow> py_error + HydraAssets" where
  "hydra_assets_from_value lib v =
     (if coin v > 0
      then (case AssetName_init lib [] of
              Inl e \<Rightarrow> Inl e
            | Inr empty_name \<Rightarrow> hydra_assets (value_entries lib empty_name v))
      else hydra_assets (value_entries lib (AssetName []) v))"

text \<open>The two compositions of the claimed round trip.\<close>

definition from_value_of_to_value :: "pycardano \<Rightarrow> HydraAssets \<Rightarrow> py_error + HydraAssets" where
  "from_value_of_to_value lib a =
     (case hydra_assets_to_value lib a of
        Inl e \<Rightarrow> Inl e
      | Inr v \<Rightarrow> hydra_assets_from_value lib v)"

definition to_value_of_from_value :: "pycardano \<Rightarrow> Value \<Rightarrow> py_error + Value" where
  "to_value_of_from_value lib v =
     (case hydra_assets_from_value lib v of
        Inl e \<Rightarrow> Inl e
      | Inr a \<Rightarrow> hydra_assets_to_value lib a)"

text \<open>
  The sum that the claim about \<^verbatim>\<open>hydra_assets\<close> speaks of: the quantities of the
  entries whose unit, the empty unit read as \<^verbatim>\<open>lovelace\<close>, is \<open>u\<close>.
\<close>

definition total :: "(string \<times> int) list \<Rightarrow> string \<Rightarrow> int" where
  "total ps u =
     sum_list (map snd (filter (\<lambda>(unit, q). (if unit = [] then ''lovelace'' else unit) = u) ps))"

definition pairs :: "(string \<times> int) list \<Rightarrow> entry list" where
  "pairs ps = map (\<lambda>(unit, q). Entry2 unit q) ps"

text \<open>\<^verbatim>\<open>result.get(unit, 0)\<close>.\<close>

definition get0 :: "HydraAssets \<Rightarrow> string \<Rightarrow> int" where
  "get0 m u = (case map_of m u of None \<Rightarrow> 0 | Some v \<Rightarrow> v)"

section \<open>models/hydra\_reference\_script.py\<close>

text \<open>
  The values that \<^verbatim>\<open>cbor2.loads\<close> returns: integers, byte strings, text, lists,
  dictionaries, tagged values (\<^verbatim>\<open>CBORTag\<close>), booleans and \<^verbatim>\<open>None\<close>.
\<close>

datatype cbor =
    CInt int
  | CBytes bytes
  | CText string
  | CArray "cbor list"
  | CMap "(cbor \<times> cbor) list"
  | CTag nat cbor
  | CBool bool
  | CNull

text \<open>
  The libraries are not part of the repository; what they compute is a parameter of the
  classifier: the decoder \<^verbatim>\<open>cbor2.loads\<close> on bytes, pycardano's
  \<^verbatim>\<open>NativeScript.from_primitive\<close> and \<^verbatim>\<open>PlutusScript.from_version\<close>, and the truth
  value of a script object. \<open>'s\<close> is the type of the script objects.
\<close>

record 's script_lib =
  cbor2_loads :: "bytes \<Rightarrow> py_error + cbor"
  NativeScript_from_primitive :: "cbor \<Rightarrow> py_error + 's"
  PlutusScript_from_version :: "cbor \<Rightarrow> cbor \<Rightarrow> py_error + 's"
  script_truthy :: "'s \<Rightarrow> bool"

record 's HydraScriptInfomation =
  script_instance :: "'s option"
  script_type :: fstring
  script_language :: "fstring option"

text \<open>
  \<^verbatim>\<open>cbor2.loads(cbor_data.value)\<close>: the decoder reads a bytes-like object, and raises
  \<^verbatim>\<open>TypeError\<close> when it is handed any other value.
\<close>

definition loads_value :: "'s script_lib \<Rightarrow> cbor \<Rightarrow> py_error + cbor" where
  "loads_value lib v =
     (case v of
        CBytes b \<Rightarrow> cbor2_loads lib b
      | _ \<Rightarrow> Inl (TypeError [S ''a bytes-like object is required'']))"

text \<open>
  \<^verbatim>\<open>script_type_id == 0\<close> and \<^verbatim>\<open>script_type_id in (1, 2, 3)\<close> compare by value, and
  a boolean is an integer in Python; \<open>fmt\<close> is the text that the f-string
  interpolates for the id.
\<close>

fun py_int_value :: "cbor \<Rightarrow> int option" where
  "py_int_value (CInt n) = Some n"
| "py_int_value (CBool b) = Some (if b then 1 else 0)"
| "py_int_value _ = None"

fun fmt :: "cbor \<Rightarrow> part" where
  "fmt (CInt n) = I n"
| "fmt (CBool b) = S (if b then ''True'' else ''False'')"
| "fmt _ = S []"

definition unknown_info :: "'s HydraScriptInfomation" where
  "unknown_info = \<lparr>script_instance = None, script_type = [S ''Unknown''], script_language = None\<rparr>"

text \<open>
  The part of the \<^verbatim>\<open>try\<close> block that follows the second decoding: the test for a list
  of two elements and the branches on the id. The three results are assigned after the
  library call returned, so a call that raises leaves no trace.
\<close>

definition classify :: "'s script_lib \<Rightarrow> cbor \<Rightarrow> py_error + 's HydraScriptInfomation" where
  "classify lib script_data =
     (case script_data of
        CArray [script_type_id, script_content] \<Rightarrow>
          if py_int_value script_type_id = Some 0 then
            (case NativeScript_from_primitive lib script_content of
               Inl e \<Rightarrow> Inl e
             | Inr inst \<Rightarrow>
                 Inr \<lparr>script_instance = Some inst, script_type = [S ''SimpleScript''],
                      script_language = Some [S ''NativeScriptLanguage SimpleScript'']\<rparr>)
          else if py_int_value script_type_id \<in> {Some 1, Some 2, Some 3} then
            (case PlutusScript_from_version lib script_type_id script_content of
               Inl e \<Rightarrow> Inl e
             | Inr inst \<Rightarrow>
                 Inr \<lparr>script_instance = Some inst,
                      script_type = [S ''PlutusScriptV'', fmt script_type_id],
                      script_language =
                        Some [S ''PlutusScriptLanguage PlutusScriptV'', fmt script_type_id]\<rparr>)
          else Inr unknown_info
      | _ \<Rightarrow> Inr unknown_info)"

text \<open>
  The \<^verbatim>\<open>try\<close> block, and the function with the handler
  \<^verbatim>\<open>except (ValueError, cbor2.CBORError)\<close>, which prints and goes on to return the
  defaults; any other exception leaves the function.
\<close>

definition decode_script_ref :: "'s script_lib \<Rightarrow> string \<Rightarrow> py_error + 's HydraScriptInfomation" where
  "decode_script_ref lib script_ref =
     (case fromhex script_ref of
        Inl e \<Rightarrow> Inl e
      | Inr cbor_bytes \<Rightarrow>
          (case cbor2_loads lib cbor_bytes of
             Inl e \<Rightarrow> Inl e
           | Inr cbor_data \<Rightarrow>
               (case cbor_data of
                  CTag tag v \<Rightarrow>
                    if tag = 24 then
                      (case loads_value lib v of
                         Inl e \<Rightarrow> Inl e
                       | Inr script_data \<Rightarrow> classify lib script_data)
                    else Inr unknown_info
                | _ \<Rightarrow> Inr unknown_info)))"

fun caught :: "py_error \<Rightarrow> bool" where
  "caught (ValueError m) = True"
| "caught (CBORError m) = True"
| "caught _ = False"

definition get_reference_script_info ::
  "'s script_lib \<Rightarrow> string option \<Rightarrow> py_error + 's HydraScriptInfomation" where
  "get_reference_script_info lib script_ref =
     (case script_ref of
        None \<Rightarrow> Inr unknown_info
      | Some ref \<Rightarrow>
          if ref = [] then Inr unknown_info
          else (case decode_script_ref lib ref of
                  Inl error \<Rightarrow> if caught error then Inr unknown_info else Inl error
                | Inr info \<Rightarrow> Inr info))"

text \<open>
  \<^verbatim>\<open>hydra_reference_script\<close>: the descriptor, or \<^verbatim>\<open>None\<close> when the reference, the
  script object or the language is falsy.
\<close>

record HydraReferenceScript =
  reference_language :: fstring
  reference_cborHex :: string
  reference_description :: string
  reference_type :: fstring

definition hydra_reference_script ::
  "'s script_lib \<Rightarrow> string option \<Rightarrow> py_error + HydraReferenceScript option" where
  "hydra_reference_script lib script_reference =
     (case get_reference_script_info lib script_reference of
        Inl e \<Rightarrow> Inl e
      | Inr info \<Rightarrow>
          (case (script_reference, script_instance info, script_language info) of
             (Some ref, Some inst, Some language) \<Rightarrow>
               if ref = [] \<or> \<not> script_truthy lib inst \<or> language = [] then Inr None
               else Inr (Some \<lparr>reference_language = language, reference_cborHex = ref,
                                reference_description = [], reference_type = script_type info\<rparr>)
           | _ \<Rightarrow> Inr None))"


definition c_open :: HydraConnection where
  "c_open =
     \<lparr>websocket = Some \<lparr>sock_connected = True, frames = [], close_codes = []\<rparr>,
      status = CONNECTED, connected = True, emitted = [], threads_started = 1\<rparr>"

definition c_idle :: HydraConnection where
  "c_idle =
     \<lparr>websocket = None, status = IDLE, connected = False, emitted = [],
      threads_started = 0\<rparr>"

definition tx_valid_message :: message where
  "tx_valid_message =
     [(''tag'', JStr ''TxValid''),
      (''transaction'', JObj [(''cborHex'', JStr ''84a400''), (''txId'', JStr ''9f3c'')])]"

definition ws_open :: WebSocketApp where
  "ws_open = \<lparr>sock_connected = True, frames = [], close_codes = []\<rparr>"

definition run0 :: run where
  "run0 = \<lparr>clock = 0, wire = [], polls = [], stdout = []\<rparr>"

text \<open>Asset lists and values used as concrete inputs.\<close>

definition entries_negative :: "(string \<times> int) list" where
  "entries_negative = [(''lovelace'', 2), ([], 3), (''ab'', -1), (''cd'', -4)]"

definition entries_ok :: "(string \<times> int) list" where
  "entries_ok = [(''lovelace'', 2), ([], 3), (''ab'', 0), (''cd'', 4), (''cd'', 1)]"

definition unit_ab :: string where
  "unit_ab = ''abababababababababababababababababababababababababababab''"

definition value_ab :: Value where
  "value_ab = \<lparr>coin = 0, multi_asset = [(ScriptHash (replicate 28 171), [(AssetName [], 1)])]\<rparr>"

text \<open>
  A library given on one input: its decoder reads the three bytes \<^verbatim>\<open>d8 18 00\<close> as
  tag 24 around the integer 0, which is what they encode.
\<close>

definition lib_d81800 :: "unit script_lib" where
  "lib_d81800 =
     \<lparr>cbor2_loads = (\<lambda>bs. if bs = [216, 24, 0] then Inr (CTag 24 (CInt 0))
                          else Inl (CBORError [S ''premature end of stream''])),
      NativeScript_from_primitive = (\<lambda>v. Inr ()),
      PlutusScript_from_version = (\<lambda>i v. Inr ()),
      script_truthy = (\<lambda>s. True)\<rparr>"

text \<open>The tags from which a status is extracted.\<close>

definition lifecycle_tags :: "json option set" where
  "lifecycle_tags = {Some (JStr ''HeadIsInitializing''), Some (JStr ''HeadIsOpen''),
     Some (JStr ''HeadIsClosed''), Some (JStr ''ReadyToFanout''), Some (JStr ''HeadIsFinalized'')}"

section \<open>Status extraction\<close>

text \<open>
  C10. In status extraction the \<^verbatim>\<open>headStatus\<close> field takes precedence over the tag:
  a message whose \<^verbatim>\<open>headStatus\<close> is \<^verbatim>\<open>"Open"\<close> gives OPEN whatever its tag, and
  \<^verbatim>\<open>process_status\<close> then stores OPEN and publishes one status change; when
  \<^verbatim>\<open>headStatus\<close> is not \<^verbatim>\<open>"Open"\<close> and the tag is none of the five lifecycle tags,
  no status is extracted, and \<^verbatim>\<open>process_status\<close> leaves the connection as it was,
  publishing nothing.
\<close>

theorem headStatus_precedence:
  "(map_of m ''headStatus'' = Some (JStr ''Open'') \<longrightarrow>
      hydra_status m = Some OPEN \<and>
      process_status m c = c\<lparr>status := OPEN, emitted := emitted c @ [OnStatusChange OPEN]\<rparr>) \<and>
   (map_of m ''headStatus'' \<noteq> Some (JStr ''Open'') \<and> map_of m ''tag'' \<notin> lifecycle_tags \<longrightarrow>
      hydra_status m = None \<and> process_status m c = c)"
  by (simp add: hydra_status_def process_status_def emit_def lifecycle_tags_def Let_def)

theorem headStatus_precedence_witness:
  "map_of [(''tag'', JStr ''HeadIsClosed''), (''headStatus'', JStr ''Open'')] ''headStatus''
     = Some (JStr ''Open'') \<and>
   hydra_status [(''tag'', JStr ''HeadIsClosed''), (''headStatus'', JStr ''Open'')] = Some OPEN \<and>
   map_of [(''tag'', JStr ''Greetings''), (''headStatus'', JStr ''Idle'')] ''headStatus''
     \<noteq> Some (JStr ''Open'') \<and>
   map_of [(''tag'', JStr ''Greetings''), (''headStatus'', JStr ''Idle'')] ''tag'' \<notin> lifecycle_tags \<and>
   hydra_status [(''tag'', JStr ''Greetings''), (''headStatus'', JStr ''Idle'')] = None \<and>
   process_status [(''tag'', JStr ''Greetings''), (''headStatus'', JStr ''Idle'')]
     \<lparr>websocket = None, status = CONNECTED, connected = True, emitted = [], threads_started = 1\<rparr>
     = \<lparr>websocket = None, status = CONNECTED, connected = True, emitted = [], threads_started = 1\<rparr>"
  using headStatus_precedence
      [of "[(''tag'', JStr ''HeadIsClosed''), (''headStatus'', JStr ''Open'')]"
          "\<lparr>websocket = None, status = CONNECTED, connected = True, emitted = [],
            threads_started = 1\<rparr>"]
    headStatus_precedence
      [of "[(''tag'', JStr ''Greetings''), (''headStatus'', JStr ''Idle'')]"
          "\<lparr>websocket = None, status = CONNECTED, connected = True, emitted = [],
            threads_started = 1\<rparr>"]
  by (simp add: lifecycle_tags_def)

section \<open>Disconnecting and connecting\<close>




lemma on_close_run: "run_threads schedule [] on_close_statements c = on_close c"
  by (simp add: run_threads_def on_close_statements_def on_close_def emit_def)





lemma disconnect_callback_last:
  "status c \<noteq> IDLE \<Longrightarrow> websocket c = Some w \<Longrightarrow> sock_connected w \<Longrightarrow>
   disconnect [] c =
     c\<lparr>websocket := Some (ws_close 1007 w), status := DISCONNECTED, connected := False,
       emitted := emitted c @ [OnStatusChange IDLE, OnStatusChange DISCONNECTED]\<rparr>"
  by (simp add: disconnect_def run_threads_def disconnect_statements_def
      on_close_statements_def emit_def)




text \<open>
  C7, as stated, fails for the connection's own \<^verbatim>\<open>connect\<close>: called on a connection
  whose status is CONNECTED and whose socket is open, it replaces the transport by a new
  one, sets the status to CONNECTING and starts a second thread.
\<close>

theorem connect_idempotent_counterexample:
  "status c_open = CONNECTED \<and>
   connect c_open \<noteq> c_open \<and>
   status (connect c_open) = CONNECTING \<and>
   websocket (connect c_open) \<noteq> websocket c_open \<and>
   threads_started (connect c_open) = 2"
  by (simp add: c_open_def connect_def new_WebSocketApp_def)

text \<open>
  C7, amended. The test is in the provider: \<^verbatim>\<open>HydraProvider.connect\<close> is a no-op
  whenever the provider's own status field is not DISCONNECTED, decided by that field and
  not by whether a transport object exists; a call that finds DISCONNECTED calls the
  connection's \<^verbatim>\<open>connect\<close> once and sets the field to CONNECTED, so a second call
  opens no new transport and changes no state. The connection's own \<^verbatim>\<open>connect\<close> has
  no test: every call stores a new transport, sets CONNECTING and starts a thread.
\<close>

theorem provider_connect_idempotent:
  "(provider_status p \<noteq> DISCONNECTED \<longrightarrow> provider_connect p = p) \<and>
   (provider_status p = DISCONNECTED \<longrightarrow>
      provider_connect p =
        p\<lparr>provider_connection := connect (provider_connection p),
          provider_status := CONNECTED\<rparr>) \<and>
   provider_connect (provider_connect p) = provider_connect p \<and>
   status (connect c) = CONNECTING \<and>
   websocket (connect c) = Some new_WebSocketApp \<and>
   threads_started (connect c) = Suc (threads_started c)"
  by (simp add: provider_connect_def connect_def)

theorem provider_connect_idempotent_witness:
  "provider_status \<lparr>provider_status = DISCONNECTED, provider_connection = c_idle\<rparr>
     = DISCONNECTED \<and>
   provider_connect \<lparr>provider_status = DISCONNECTED, provider_connection = c_idle\<rparr>
     = \<lparr>provider_status = CONNECTED, provider_connection = connect c_idle\<rparr> \<and>
   provider_status \<lparr>provider_status = CONNECTED, provider_connection = connect c_idle\<rparr>
     \<noteq> DISCONNECTED \<and>
   provider_connect \<lparr>provider_status = CONNECTED, provider_connection = connect c_idle\<rparr>
     = \<lparr>provider_status = CONNECTED, provider_connection = connect c_idle\<rparr> \<and>
   threads_started (connect c_idle) = 1"
  using provider_connect_idempotent
      [of "\<lparr>provider_status = DISCONNECTED, provider_connection = c_idle\<rparr>" c_idle]
    provider_connect_idempotent
      [of "\<lparr>provider_status = CONNECTED, provider_connection = connect c_idle\<rparr>" c_idle]
  by (simp add: c_idle_def)

section \<open>Sending\<close>

lemma send_loop_hit:
  "clock r = start + int i \<Longrightarrow> i \<le> k \<Longrightarrow> k < 5 \<Longrightarrow> ready tr (start + int k) \<Longrightarrow>
   (\<forall>j. i \<le> j \<and> j < k \<longrightarrow> \<not> ready tr (start + int j)) \<Longrightarrow>
   send_loop tr data start r =
     r\<lparr>clock := start + int k,
       polls := polls r @ map (\<lambda>j. start + int j) [i..<Suc k],
       wire := wire r @ [(start + int k, data)]\<rparr>"
proof (induction "k - i" arbitrary: i r)
  case 0
  then have "i = k" by simp
  with 0 show ?case
    by (subst send_loop.simps) (simp add: deliver_def poll_def)
next
  case (Suc n)
  then have lt: "i < k" by simp
  with Suc.prems have nr: "\<not> ready tr (clock r)" by simp
  have step: "send_loop tr data start r = send_loop tr data start (sleep 1 (poll r))"
    using Suc.prems lt nr by (subst send_loop.simps) simp
  have "send_loop tr data start (sleep 1 (poll r)) =
     (sleep 1 (poll r))\<lparr>clock := start + int k,
       polls := polls (sleep 1 (poll r)) @ map (\<lambda>j. start + int j) [Suc i..<Suc k],
       wire := wire (sleep 1 (poll r)) @ [(start + int k, data)]\<rparr>"
    using Suc.prems Suc.hyps(2) lt
    by (intro Suc.hyps(1)) (auto simp: sleep_def poll_def)
  with step show ?case
    using Suc.prems lt by (simp add: sleep_def poll_def upt_conv_Cons)
qed

lemma send_loop_miss:
  "clock r = start + int i \<Longrightarrow> i \<le> 5 \<Longrightarrow>
   (\<forall>j. i \<le> j \<and> j < 5 \<longrightarrow> \<not> ready tr (start + int j)) \<Longrightarrow>
   send_loop tr data start r =
     r\<lparr>clock := start + 5,
       polls := polls r @ map (\<lambda>j. start + int j) [i..<5],
       stdout := stdout r @ [[S ''Websocket failed to send '', V data]]\<rparr>"
proof (induction "5 - i" arbitrary: i r)
  case 0
  then have "i = 5" by simp
  with 0 show ?case
    by (subst send_loop.simps) (simp add: print_failed_def)
next
  case (Suc n)
  then have lt: "i < 5" by simp
  with Suc.prems have nr: "\<not> ready tr (clock r)" by simp
  have step: "send_loop tr data start r = send_loop tr data start (sleep 1 (poll r))"
    using Suc.prems lt nr by (subst send_loop.simps) simp
  have "send_loop tr data start (sleep 1 (poll r)) =
     (sleep 1 (poll r))\<lparr>clock := start + 5,
       polls := polls (sleep 1 (poll r)) @ map (\<lambda>j. start + int j) [Suc i..<5],
       stdout := stdout (sleep 1 (poll r)) @ [[S ''Websocket failed to send '', V data]]\<rparr>"
    using Suc.prems Suc.hyps(2) lt
    by (intro Suc.hyps(1)) (auto simp: sleep_def poll_def)
  with step show ?case
    using Suc.prems lt by (simp add: sleep_def poll_def upt_conv_Cons)
qed


text \<open>
  C8. \<^verbatim>\<open>send\<close> delivers at once when the transport is open. When it is not, it checks
  again at the start of the window and then once after each one-second sleep, for as long
  as less than 5 seconds have passed: if the transport is first open \<open>k\<close> seconds into
  the window (\<open>k < 5\<close>), the frame is delivered then and nothing is printed; if it is
  open at none of the seconds 0 to 4, the call returns at second 5 with nothing delivered
  and the failure printed. No path raises.
\<close>

theorem send_bounded_retry:
  "(ready tr (clock r) \<longrightarrow>
      send tr data r =
        r\<lparr>polls := polls r @ [clock r], wire := wire r @ [(clock r, data)]\<rparr>) \<and>
   (\<not> ready tr (clock r) \<and> k < 5 \<and> ready tr (clock r + int k) \<and>
    (\<forall>j<k. \<not> ready tr (clock r + int j)) \<longrightarrow>
      send tr data r =
        r\<lparr>clock := clock r + int k,
          polls := polls r @ clock r # map (\<lambda>j. clock r + int j) [0..<Suc k],
          wire := wire r @ [(clock r + int k, data)]\<rparr>) \<and>
   ((\<forall>j<5. \<not> ready tr (clock r + int j)) \<longrightarrow>
      send tr data r =
        r\<lparr>clock := clock r + 5,
          polls := polls r @ clock r # map (\<lambda>j. clock r + int j) [0..<5],
          stdout := stdout r @ [[S ''Websocket failed to send '', V data]]\<rparr>)"
proof (intro conjI impI)
  assume "ready tr (clock r)"
  then show "send tr data r =
        r\<lparr>polls := polls r @ [clock r], wire := wire r @ [(clock r, data)]\<rparr>"
    by (simp add: send_def deliver_def poll_def)
next
  assume a: "\<not> ready tr (clock r) \<and> k < 5 \<and> ready tr (clock r + int k) \<and>
    (\<forall>j<k. \<not> ready tr (clock r + int j))"
  have "send_loop tr data (clock r) (poll r) =
     (poll r)\<lparr>clock := clock r + int k,
       polls := polls (poll r) @ map (\<lambda>j. clock r + int j) [0..<Suc k],
       wire := wire (poll r) @ [(clock r + int k, data)]\<rparr>"
    using a by (intro send_loop_hit) (auto simp: poll_def)
  with a show "send tr data r =
        r\<lparr>clock := clock r + int k,
          polls := polls r @ clock r # map (\<lambda>j. clock r + int j) [0..<Suc k],
          wire := wire r @ [(clock r + int k, data)]\<rparr>"
    by (simp add: send_def poll_def)
next
  assume a: "\<forall>j<5. \<not> ready tr (clock r + int j)"
  then have nr: "\<not> ready tr (clock r)" by (metis add.right_neutral of_nat_0 zero_less_numeral)
  have "send_loop tr data (clock r) (poll r) =
     (poll r)\<lparr>clock := clock r + 5,
       polls := polls (poll r) @ map (\<lambda>j. clock r + int j) [0..<5],
       stdout := stdout (poll r) @ [[S ''Websocket failed to send '', V data]]\<rparr>"
    using a by (intro send_loop_miss) (auto simp: poll_def)
  with nr show "send tr data r =
        r\<lparr>clock := clock r + 5,
          polls := polls r @ clock r # map (\<lambda>j. clock r + int j) [0..<5],
          stdout := stdout r @ [[S ''Websocket failed to send '', V data]]\<rparr>"
    by (simp add: send_def poll_def)
qed

theorem send_bounded_retry_witness:
  "send (\<lambda>t. Some ws_open) (JObj [(''tag'', JStr ''Init'')]) run0 =
     \<lparr>clock = 0, wire = [(0, JObj [(''tag'', JStr ''Init'')])], polls = [0], stdout = []\<rparr> \<and>
   send (\<lambda>t. if 3 \<le> t then Some ws_open else None) (JObj [(''tag'', JStr ''Init'')]) run0 =
     \<lparr>clock = 3, wire = [(3, JObj [(''tag'', JStr ''Init'')])], polls = [0, 0, 1, 2, 3],
      stdout = []\<rparr> \<and>
   send (\<lambda>t. None) (JObj [(''tag'', JStr ''Init'')]) run0 =
     \<lparr>clock = 5, wire = [], polls = [0, 0, 1, 2, 3, 4],
      stdout = [[S ''Websocket failed to send '', V (JObj [(''tag'', JStr ''Init'')])]]\<rparr>"
  using send_bounded_retry [of "\<lambda>t. Some ws_open" run0 "JObj [(''tag'', JStr ''Init'')]" 0]
    send_bounded_retry [of "\<lambda>t. if 3 \<le> t then Some ws_open else None" run0
      "JObj [(''tag'', JStr ''Init'')]" 3]
    send_bounded_retry [of "\<lambda>t. None" run0 "JObj [(''tag'', JStr ''Init'')]" 0]
  by (simp add: ready_def ws_open_def run0_def upt_rec)

section \<open>Request and response\<close>

lemma get_success:
  "status_code response = 200 \<or> status_code response = 202 \<Longrightarrow>
   get (Inr (response, Inr body)) = Inr body"
  by (auto simp: get_def get_try_def)

lemma post_success:
  "status_code response = 200 \<or> status_code response = 202 \<Longrightarrow>
   post (Inr (response, Inr body)) = Inr body"
  by (auto simp: post_def post_try_def)

lemma get_failure:
  "get outcome = Inl e \<Longrightarrow> e = TypeError [S ''exceptions must derive from BaseException'']"
  by (auto simp: get_def raise_str_def split: sum.splits)

lemma post_failure:
  "post outcome = Inl e \<Longrightarrow> e = TypeError [S ''exceptions must derive from BaseException'']"
  by (auto simp: post_def raise_str_def split: sum.splits)

text \<open>
  C9. A response with status 200 or 202 returns its decoded body (\<open>get_success\<close>,
  \<open>post_success\<close>). For another status the claim asks for an error that carries the
  body, the headers and the status code; here \<^verbatim>\<open>get\<close> and \<^verbatim>\<open>post\<close>, on a response
  with status 404, raise a \<^verbatim>\<open>TypeError\<close> whose only content is a fixed message:
  \<^verbatim>\<open>parse_error\<close> returns a \<^verbatim>\<open>str\<close>, and raising a \<^verbatim>\<open>str\<close> is itself a type error,
  first inside the \<^verbatim>\<open>try\<close> block and then again in the handler.
\<close>

theorem get_post_error_is_TypeError:
  "get (Inr (\<lparr>status_code = 404, response_text = ''not found'',
              headers = [(''Content-Type'', ''application/json'')]\<rparr>,
            Inr (JStr ''not found''))) =
     Inl (TypeError [S ''exceptions must derive from BaseException'']) \<and>
   post (Inr (\<lparr>status_code = 404, response_text = ''not found'',
              headers = [(''Content-Type'', ''application/json'')]\<rparr>,
            Inr (JStr ''not found''))) =
     Inl (TypeError [S ''exceptions must derive from BaseException''])"
  by (simp add: get_def get_try_def post_def post_try_def raise_str_def)

section \<open>Submitting a transaction\<close>

text \<open>
  On its own, \<^verbatim>\<open>wait_for_tx_response\<close> does correlate by the transaction's bytes: a
  message whose \<^verbatim>\<open>cborHex\<close> differs from \<open>tx\<close> leaves the future as it is.
\<close>

lemma callback_other_tx:
  "transaction_cborHex m = Inr h \<Longrightarrow> h \<noteq> Some (JStr tx) \<Longrightarrow> callback tx m f = Inr f"
  by (simp add: callback_def)

lemma wait_for_tx_response_valid:
  "wait_for_tx_response ''84a400'' [tx_valid_message] [] = (Returned (JStr ''9f3c''), [])"
  by (simp add: wait_for_tx_response_def tx_valid_message_def callback_def
      transaction_cborHex_def subscript_def set_result_def)

lemma submit_tx_always_raises:
  "fst (submit_tx transport tx ms st) =
     Raised (TypeError [S ''exceptions must derive from BaseException''])"
  by (simp add: submit_tx_def new_tx_def raise_str_def Let_def)

text \<open>
  C1. The claim asks that \<^verbatim>\<open>submit_tx\<close> resolve with the transaction id when the
  matching \<^verbatim>\<open>TxValid\<close> message is delivered. Here the transport is open, the command
  goes out on the wire and the matching \<^verbatim>\<open>TxValid\<close> message is published, yet
  \<^verbatim>\<open>submit_tx\<close> raises a \<^verbatim>\<open>TypeError\<close> and registers no listener: \<^verbatim>\<open>new_tx\<close> awaits
  the \<^verbatim>\<open>None\<close> that \<^verbatim>\<open>send\<close> returned, and the handler raises the \<^verbatim>\<open>str\<close> that
  \<^verbatim>\<open>parse_error\<close> returned.
\<close>

theorem submit_tx_raises_TypeError:
  "submit_tx (\<lambda>t. Some ws_open) ''84a400'' [tx_valid_message] (run0, []) =
     (Raised (TypeError [S ''exceptions must derive from BaseException'']),
      \<lparr>clock = 0,
       wire = [(0, JObj [(''tag'', JStr ''NewTx''),
                 (''transaction'', JObj [(''type'', JStr ''Witnessed Tx ConwayEra''),
                    (''description'', JStr []), (''cborHex'', JStr ''84a400''),
                    (''txId'', JNull)])])],
       polls = [0], stdout = []\<rparr>,
      [])"
  by (simp add: submit_tx_def new_tx_def raise_str_def send_def ready_def ws_open_def run0_def
      deliver_def poll_def)

section \<open>Canonical values\<close>

lemma get0_update: "get0 (AList.update k v m) u = (if u = k then v else get0 m u)"
  by (simp add: get0_def update_conv')

lemma total_Nil: "total [] u = 0"
  by (simp add: total_def)

lemma total_Cons:
  "total ((unit, q) # ps) u =
     (if (if unit = [] then ''lovelace'' else unit) = u then q else 0) + total ps u"
  by (simp add: total_def)

lemma hydra_assets_loop_ok:
  "\<forall>(unit, q) \<in> set ps. 0 \<le> q \<Longrightarrow> distinct (map fst acc) \<Longrightarrow>
   \<exists>res. hydra_assets_loop (pairs ps) acc = Inr res \<and> distinct (map fst res) \<and>
     (\<forall>u. get0 res u = get0 acc u + total ps u) \<and>
     fst ` set res = fst ` set acc \<union> (\<lambda>(unit, q). if unit = [] then ''lovelace'' else unit) ` set ps"
proof (induction ps arbitrary: acc)
  case Nil
  then show ?case by (simp add: pairs_def total_Nil)
next
  case (Cons p ps)
  obtain unit q where p: "p = (unit, q)" by (cases p)
  define unit' where "unit' = (if unit = [] then ''lovelace'' else unit)"
  define acc' where "acc' = AList.update unit' (get0 acc unit' + q) acc"
  have q: "0 \<le> q" and rest: "\<forall>(unit, q) \<in> set ps. 0 \<le> q"
    using Cons.prems(1) p by auto
  have d: "distinct (map fst acc')"
    using Cons.prems(2) by (simp add: acc'_def distinct_update)
  from Cons.IH [OF rest d] obtain res where
    res: "hydra_assets_loop (pairs ps) acc' = Inr res" "distinct (map fst res)"
      "\<forall>u. get0 res u = get0 acc' u + total ps u"
      "fst ` set res = fst ` set acc' \<union> (\<lambda>(unit, q). if unit = [] then ''lovelace'' else unit) ` set ps"
    by blast
  have step: "hydra_assets_loop (pairs (p # ps)) acc = hydra_assets_loop (pairs ps) acc'"
    using q by (simp add: p pairs_def acc'_def unit'_def get0_def Let_def)
  have sums: "\<forall>u. get0 res u = get0 acc u + total (p # ps) u"
    using res(3) by (auto simp: p total_Cons acc'_def get0_update unit'_def)
  have keys: "fst ` set res = fst ` set acc \<union>
      (\<lambda>(unit, q). if unit = [] then ''lovelace'' else unit) ` set (p # ps)"
    using res(4) by (auto simp: p acc'_def dom_update unit'_def)
  show ?case using step res(1,2) sums keys by simp
qed

lemma hydra_assets_loop_negative:
  "find (\<lambda>(unit, q). q < 0) ps = Some (u, n) \<Longrightarrow>
   hydra_assets_loop (pairs ps) acc =
     Inl (ValueError [S ''Negative quantity for asset '', S u, S '': '', I n])"
proof (induction ps arbitrary: acc)
  case Nil
  then show ?case by simp
next
  case (Cons p ps)
  obtain unit q where p: "p = (unit, q)" by (cases p)
  show ?case
  proof (cases "q < 0")
    case True
    with Cons.prems show ?thesis by (simp add: p pairs_def)
  next
    case False
    with Cons.prems have "find (\<lambda>(unit, q). q < 0) ps = Some (u, n)" by (simp add: p)
    from Cons.IH [OF this] show ?thesis using False by (simp add: p pairs_def Let_def)
  qed
qed

lemma map_of_filter_nonzero:
  "distinct (map fst m) \<Longrightarrow>
   map_of (filter (\<lambda>(key, value). value \<noteq> (0::int)) m) u =
     (if get0 m u = 0 then None else Some (get0 m u))"
proof (induction m)
  case Nil
  then show ?case by (simp add: get0_def)
next
  case (Cons kv m)
  obtain k v where kv: "kv = (k, v)" by (cases kv)
  from Cons.prems have k: "k \<notin> fst ` set m" and d: "distinct (map fst m)" by (auto simp: kv)
  from k have none: "map_of m k = None" by (simp add: map_of_eq_None_iff)
  show ?case
    using Cons.IH [OF d] none by (auto simp: kv get0_def)
qed

text \<open>
  C3. On a list of (unit, quantity) pairs, \<^verbatim>\<open>hydra_assets\<close> raises if and only if some
  entry has a negative quantity, and the error is the \<^verbatim>\<open>ValueError\<close> that names the unit
  and the quantity of the first such entry. When no entry is negative it returns a
  dictionary with distinct keys in which every unit is bound to the sum of the quantities
  of its entries, the entries with the empty unit counted under \<^verbatim>\<open>lovelace\<close>; a unit
  whose sum is 0 is absent, no bound quantity is 0, and the empty unit is no key.
\<close>

theorem hydra_assets_canonical:
  "((\<exists>e. hydra_assets (pairs ps) = Inl e) \<longleftrightarrow> (\<exists>(unit, q) \<in> set ps. q < 0)) \<and>
   (\<forall>u n. find (\<lambda>(unit, q). q < 0) ps = Some (u, n) \<longrightarrow>
      hydra_assets (pairs ps) =
        Inl (ValueError [S ''Negative quantity for asset '', S u, S '': '', I n])) \<and>
   ((\<forall>(unit, q) \<in> set ps. 0 \<le> q) \<longrightarrow>
      (\<exists>m. hydra_assets (pairs ps) = Inr m \<and> distinct (map fst m) \<and>
         (\<forall>u. map_of m u = (if total ps u = 0 then None else Some (total ps u))) \<and>
         (\<forall>(key, value) \<in> set m. value \<noteq> 0) \<and>
         [] \<notin> fst ` set m))"
proof -
  have neg: "hydra_assets (pairs ps) =
      Inl (ValueError [S ''Negative quantity for asset '', S u, S '': '', I n])"
    if "find (\<lambda>(unit, q). q < 0) ps = Some (u, n)" for u n
    using hydra_assets_loop_negative [OF that] by (simp add: hydra_assets_def)
  have ok: "\<exists>m. hydra_assets (pairs ps) = Inr m \<and> distinct (map fst m) \<and>
         (\<forall>u. map_of m u = (if total ps u = 0 then None else Some (total ps u))) \<and>
         (\<forall>(key, value) \<in> set m. value \<noteq> 0) \<and> [] \<notin> fst ` set m"
    if nonneg: "\<forall>(unit, q) \<in> set ps. 0 \<le> q"
  proof -
    have d0: "distinct (map fst [(''lovelace'', 0::int)])" by simp
    from hydra_assets_loop_ok [OF nonneg d0] obtain res where
      res: "hydra_assets_loop (pairs ps) [(''lovelace'', 0)] = Inr res" "distinct (map fst res)"
        "\<forall>u. get0 res u = get0 [(''lovelace'', 0)] u + total ps u"
        "fst ` set res = fst ` set [(''lovelace'', 0::int)] \<union>
           (\<lambda>(unit, q). if unit = [] then ''lovelace'' else unit) ` set ps"
      by blast
    let ?m = "filter (\<lambda>(key, value). value \<noteq> 0) res"
    have g: "get0 res u = total ps u" for u
      using res(3) by (simp add: get0_def)
    have 1: "hydra_assets (pairs ps) = Inr ?m"
      using res(1) by (simp add: hydra_assets_def)
    have 2: "distinct (map fst ?m)"
      using res(2) by (simp add: distinct_map_filter)
    have 3: "\<forall>u. map_of ?m u = (if total ps u = 0 then None else Some (total ps u))"
      using map_of_filter_nonzero [OF res(2)] g by simp
    have 4: "\<forall>(key, value) \<in> set ?m. value \<noteq> 0" by auto
    have "[] \<notin> fst ` set res"
      unfolding res(4) by (auto split: if_splits)
    then have 5: "[] \<notin> fst ` set ?m" by auto
    from 1 2 3 4 5 show ?thesis by blast
  qed
  have iff: "(\<exists>e. hydra_assets (pairs ps) = Inl e) \<longleftrightarrow> (\<exists>(unit, q) \<in> set ps. q < 0)"
  proof
    assume l: "\<exists>e. hydra_assets (pairs ps) = Inl e"
    show "\<exists>(unit, q) \<in> set ps. q < 0"
    proof (rule ccontr)
      assume "\<not> (\<exists>(unit, q) \<in> set ps. q < 0)"
      then have "\<forall>(unit, q) \<in> set ps. 0 \<le> q" by (auto simp: not_less)
      from ok [OF this] l show False by auto
    qed
  next
    assume "\<exists>(unit, q) \<in> set ps. q < 0"
    then obtain x where "x \<in> set ps" "(\<lambda>(unit, q). q < 0) x" by auto
    then obtain y where "find (\<lambda>(unit, q). q < 0) ps = Some y"
      by (cases "find (\<lambda>(unit, q). q < 0) ps") (auto simp: find_None_iff)
    then show "\<exists>e. hydra_assets (pairs ps) = Inl e"
      using neg [of "fst y" "snd y"] by simp
  qed
  from iff neg ok show ?thesis by blast
qed

theorem hydra_assets_canonical_witness:
  "(\<exists>(unit, q) \<in> set entries_negative. q < 0) \<and>
   hydra_assets (pairs entries_negative) =
     Inl (ValueError [S ''Negative quantity for asset '', S ''ab'', S '': '', I (-1)]) \<and>
   (\<exists>m. hydra_assets (pairs entries_ok) = Inr m \<and>
      map_of m ''lovelace'' = Some 5 \<and> map_of m ''cd'' = Some 5 \<and> map_of m ''ab'' = None)"
proof -
  have n: "\<exists>(unit, q) \<in> set entries_negative. q < 0"
    by (simp add: entries_negative_def)
  have f: "find (\<lambda>(unit, q). q < 0) entries_negative = Some (''ab'', -1)"
    by (simp add: entries_negative_def)
  have 1: "hydra_assets (pairs entries_negative) =
     Inl (ValueError [S ''Negative quantity for asset '', S ''ab'', S '': '', I (-1)])"
    using hydra_assets_canonical [of entries_negative] f by blast
  have p: "\<forall>(unit, q) \<in> set entries_ok. 0 \<le> q"
    by (simp add: entries_ok_def)
  have t: "total entries_ok ''lovelace'' = 5" "total entries_ok ''cd'' = 5"
    "total entries_ok ''ab'' = 0"
    by (simp_all add: total_def entries_ok_def)
  from hydra_assets_canonical [of entries_ok] p obtain m where
    m: "hydra_assets (pairs entries_ok) = Inr m"
      "\<forall>u. map_of m u = (if total entries_ok u = 0 then None else Some (total entries_ok u))"
    by blast
  have 2: "map_of m ''lovelace'' = Some 5 \<and> map_of m ''cd'' = Some 5 \<and> map_of m ''ab'' = None"
    using m(2) t by simp
  from n 1 m(1) 2 show ?thesis by blast
qed

section \<open>Conversion to and from ledger values\<close>

lemma fromhex_unit_ab: "fromhex unit_ab = Inr (replicate 28 171)"
  by code_simp

lemma hydra_assets_to_value_unit_ab:
  "hydra_assets_to_value pycardano_lib [(unit_ab, 1)] = Inr value_ab"
proof -
  have l: "length unit_ab = 56" by (simp add: unit_ab_def)
  have n: "unit_ab \<noteq> ''lovelace''" "unit_ab \<noteq> []" by (simp_all add: unit_ab_def)
  show ?thesis
    using l n fromhex_unit_ab
    by (simp add: hydra_assets_to_value_def pycardano_lib_def except_ValueError_def
        set_quantity_def value_ab_def)
qed

lemma hydra_assets_Entry3:
  "hydra_assets (Entry3 p n q # es) = Inl (ValueError [S ''too many values to unpack (expected 2)''])"
  by (simp add: hydra_assets_def)

lemma hydra_assets_from_value_ab:
  "hydra_assets_from_value pycardano_lib value_ab =
     Inl (ValueError [S ''too many values to unpack (expected 2)''])"
  by (simp add: hydra_assets_from_value_def value_entries_def value_ab_def hydra_assets_Entry3)

lemma hydra_assets_from_value_coin:
  "0 < coin v \<Longrightarrow> AssetName_init lib [] = Inr n \<Longrightarrow>
   hydra_assets_from_value lib v =
     Inl (ValueError [S ''too many values to unpack (expected 2)''])"
  by (simp add: hydra_assets_from_value_def value_entries_def hydra_assets_Entry3)

text \<open>
  C2. The claim asks that the two conversions compose to the identity, up to the order of
  the units. Here the canonical value holds one asset, quantity 1 under a policy id of 56
  hexadecimal characters and the empty asset name: \<^verbatim>\<open>hydra_assets_to_value\<close> converts
  it, and \<^verbatim>\<open>hydra_assets_from_value\<close> on the result raises \<^verbatim>\<open>ValueError\<close>, in either
  order of composition, because it hands \<^verbatim>\<open>hydra_assets\<close> triples and the loop of
  \<^verbatim>\<open>hydra_assets\<close> unpacks each element into two names.
\<close>

theorem round_trip_raises:
  "from_value_of_to_value pycardano_lib [(unit_ab, 1)] =
     Inl (ValueError [S ''too many values to unpack (expected 2)'']) \<and>
   to_value_of_from_value pycardano_lib value_ab =
     Inl (ValueError [S ''too many values to unpack (expected 2)''])"
  by (simp add: from_value_of_to_value_def to_value_of_from_value_def
      hydra_assets_to_value_unit_ab hydra_assets_from_value_ab)

lemma to_assets_short_unit:
  "to_assets lib [(''abc'', 1)] = Inl (ValueError [S ''Invalid unit length: '', S ''abc''])"
  by (simp add: to_assets_def)

lemma to_value_loop_ValueError:
  "hydra_assets_to_value_loop lib items st = Inl (ValueError m) \<Longrightarrow>
   \<exists>u. m = [S ''Invalid policy_id in unit: '', S u]"
proof (induction lib items st rule: hydra_assets_to_value_loop.induct)
  case (1 lib st)
  then show ?case by simp
next
  case (2 lib unit quantity items lovelace ma)
  show ?case
  proof (cases "unit = ''lovelace''")
    case True
    with 2 show ?thesis by simp
  next
    case False
    define step where "step =
      except_ValueError [S ''Invalid policy_id in unit: '', S unit]
        (case (if (if length unit \<ge> 56 then take 56 unit else []) \<noteq> []
               then (case fromhex (if length unit \<ge> 56 then take 56 unit else []) of
                       Inl e \<Rightarrow> Inl e
                     | Inr payload \<Rightarrow> ScriptHash_init lib payload)
               else ScriptHash_init lib []) of
           Inl e \<Rightarrow> Inl e
         | Inr policy_hash \<Rightarrow>
             (case AssetName_init lib
                     (if (if length unit > 56 then drop 56 unit else []) \<noteq> []
                      then encode_utf8 (if length unit > 56 then drop 56 unit else []) else []) of
                Inl e \<Rightarrow> Inl e
              | Inr name \<Rightarrow> Inr (set_quantity policy_hash name quantity ma)))"
    have eq: "hydra_assets_to_value_loop lib ((unit, quantity) # items) (lovelace, ma) =
        (case step of Inl e \<Rightarrow> Inl e
         | Inr ma' \<Rightarrow> hydra_assets_to_value_loop lib items (lovelace, ma'))"
      using False by (simp add: step_def Let_def)
    show ?thesis
    proof (cases step)
      case (Inl e)
      with eq "2.prems" have e: "e = ValueError m" by simp
      from Inl have "\<exists>u. e = ValueError [S ''Invalid policy_id in unit: '', S u] \<or> (\<forall>x. e \<noteq> ValueError x)"
        unfolding step_def except_ValueError_def
        by (auto split: sum.splits py_error.splits)
      with e show ?thesis by auto
    next
      case (Inr ma')
      with eq "2.prems" have "hydra_assets_to_value_loop lib items (lovelace, ma') = Inl (ValueError m)"
        by simp
      from "2.IH"(2) [OF False refl refl _ this] Inr show ?thesis
        unfolding step_def by simp
    qed
  qed
qed

lemma to_value_never_invalid_unit_length:
  "hydra_assets_to_value lib a \<noteq> Inl (ValueError (S ''Invalid unit length: '' # rest))"
proof
  assume "hydra_assets_to_value lib a = Inl (ValueError (S ''Invalid unit length: '' # rest))"
  then have "hydra_assets_to_value_loop lib a (0, []) =
      Inl (ValueError (S ''Invalid unit length: '' # rest))"
    by (auto simp: hydra_assets_to_value_def split: sum.splits)
  from to_value_loop_ValueError [OF this] show False by auto
qed

text \<open>
  C4. The claim asks for the invalid-unit-length error on a unit shorter than 56
  characters. \<^verbatim>\<open>to_assets\<close> raises it. \<^verbatim>\<open>hydra_assets_to_value\<close> has no such test: on
  the unit \<^verbatim>\<open>abc\<close> with quantity 1 it takes the empty policy id and calls the
  constructor of the script hash on the empty bytes, so what is raised is the library's
  assertion error on the payload size (\<open>to_value_never_invalid_unit_length\<close>: for no
  library and no input is it the invalid-unit-length error).
\<close>

theorem short_unit_not_rejected:
  "hydra_assets_to_value pycardano_lib [(''abc'', 1)] =
     Inl (AssertionError [S ''Invalid byte size: '', I 0]) \<and>
   to_assets pycardano_lib [(''abc'', 1)] =
     Inl (ValueError [S ''Invalid unit length: '', S ''abc''])"
  by (simp add: hydra_assets_to_value_def pycardano_lib_def except_ValueError_def to_assets_def)

section \<open>Script references\<close>

lemma info_absent:
  "get_reference_script_info lib None = Inr unknown_info \<and>
   get_reference_script_info lib (Some []) = Inr unknown_info"
  by (simp add: get_reference_script_info_def)

lemma info_bad_hex:
  "fromhex ref = Inl (ValueError m) \<Longrightarrow> get_reference_script_info lib (Some ref) = Inr unknown_info"
  by (simp add: get_reference_script_info_def decode_script_ref_def)

lemma info_malformed_cbor:
  "fromhex ref = Inr bs \<Longrightarrow> cbor2_loads lib bs = Inl (CBORError m) \<Longrightarrow>
   get_reference_script_info lib (Some ref) = Inr unknown_info"
  by (simp add: get_reference_script_info_def decode_script_ref_def)

lemma info_not_tag_24:
  "fromhex ref = Inr bs \<Longrightarrow> cbor2_loads lib bs = Inr v \<Longrightarrow> \<forall>x. v \<noteq> CTag 24 x \<Longrightarrow>
   get_reference_script_info lib (Some ref) = Inr unknown_info"
  by (auto simp: get_reference_script_info_def decode_script_ref_def split: cbor.splits)

lemma info_native:
  "ref \<noteq> [] \<Longrightarrow> fromhex ref = Inr bs \<Longrightarrow> cbor2_loads lib bs = Inr (CTag 24 (CBytes inner)) \<Longrightarrow>
   cbor2_loads lib inner = Inr (CArray [CInt 0, content]) \<Longrightarrow>
   NativeScript_from_primitive lib content = Inr inst \<Longrightarrow>
   get_reference_script_info lib (Some ref) =
     Inr \<lparr>script_instance = Some inst, script_type = [S ''SimpleScript''],
          script_language = Some [S ''NativeScriptLanguage SimpleScript'']\<rparr>"
  by (simp add: get_reference_script_info_def decode_script_ref_def loads_value_def classify_def)

lemma info_plutus:
  "ref \<noteq> [] \<Longrightarrow> fromhex ref = Inr bs \<Longrightarrow> cbor2_loads lib bs = Inr (CTag 24 (CBytes inner)) \<Longrightarrow>
   cbor2_loads lib inner = Inr (CArray [CInt n, content]) \<Longrightarrow> n \<in> {1, 2, 3} \<Longrightarrow>
   PlutusScript_from_version lib (CInt n) content = Inr inst \<Longrightarrow>
   get_reference_script_info lib (Some ref) =
     Inr \<lparr>script_instance = Some inst, script_type = [S ''PlutusScriptV'', I n],
          script_language = Some [S ''PlutusScriptLanguage PlutusScriptV'', I n]\<rparr>"
  by (auto simp: get_reference_script_info_def decode_script_ref_def loads_value_def classify_def)

text \<open>
  C5. The claim asks that the classifier never raise. The absent and the empty
  reference, bad hexadecimal, malformed CBOR and a value that is not tag 24 do give
  Unknown, and ids 0 to 3 give their languages (the lemmas above). But when the outer
  value is tag 24 around anything that is not a byte string, the second
  \<^verbatim>\<open>cbor2.loads\<close> raises \<^verbatim>\<open>TypeError\<close>, which the handler does not catch, and the
  classifier raises it. The witness is the reference \<^verbatim>\<open>d81800\<close>.
\<close>

theorem script_ref_raises_TypeError:
  "ref \<noteq> [] \<Longrightarrow> fromhex ref = Inr bs \<Longrightarrow> cbor2_loads lib bs = Inr (CTag 24 v) \<Longrightarrow>
   \<forall>b. v \<noteq> CBytes b \<Longrightarrow>
   get_reference_script_info lib (Some ref) =
     Inl (TypeError [S ''a bytes-like object is required''])"
  by (cases v) (simp_all add: get_reference_script_info_def decode_script_ref_def loads_value_def)

theorem script_ref_raises_TypeError_witness:
  "''d81800'' \<noteq> [] \<and> fromhex ''d81800'' = Inr [216, 24, 0] \<and>
   cbor2_loads lib_d81800 [216, 24, 0] = Inr (CTag 24 (CInt 0)) \<and>
   (\<forall>b. CInt 0 \<noteq> CBytes b) \<and>
   get_reference_script_info lib_d81800 (Some ''d81800'') =
     Inl (TypeError [S ''a bytes-like object is required''])"
proof -
  have h: "fromhex ''d81800'' = Inr [216, 24, 0]" by code_simp
  have l: "cbor2_loads lib_d81800 [216, 24, 0] = Inr (CTag 24 (CInt 0))"
    by (simp add: lib_d81800_def)
  have n: "''d81800'' \<noteq> []" by simp
  have b: "\<forall>b. CInt 0 \<noteq> CBytes b" by simp
  from script_ref_raises_TypeError [OF n h l b] n h l b show ?thesis by blast
qed

end
